theory Spec2Isabelle
  imports Main
begin

section \<open>Session handling of the API: login, refresh, logout\<close>

text \<open>
  The three handlers registered by \<^verbatim>\<open>authRoutes\<close> (\<^verbatim>\<open>POST /login\<close>,
  \<^verbatim>\<open>POST /refresh\<close>, \<^verbatim>\<open>POST /logout\<close>) are embedded as functions on an
  explicit database state. A handler takes the state and the parsed request body and
  returns its reply together with the new state. What the handlers import is not part
  of the sources and is a parameter of the model: the token issuer and the password
  verifier of \<^verbatim>\<open>@wms/auth\<close>, the digest of \<^verbatim>\<open>crypto\<close>, and the readings of
  the clock.
\<close>

subsection \<open>Data\<close>

text \<open>An instant is a JavaScript \<^verbatim>\<open>Date\<close> value: milliseconds since the epoch.\<close>

type_synonym instant = nat

datatype UserRole = SUPER_ADMIN | ADMIN | MANAGER | STAFF

text \<open>
  A row of \<^verbatim>\<open>users\<close>, with the columns the handlers read. The password column is
  nullable: the login handler tests \<^verbatim>\<open>!user.password\<close>.
\<close>

record user =
  user_id :: string
  email :: string
  password :: "string option"
  name :: string
  role :: UserRole
  active :: bool

text \<open>
  A row of \<^verbatim>\<open>refresh_tokens\<close>. Its \<^verbatim>\<open>token\<close> column holds the digest of the raw
  token and is unique (the handlers read it with \<^verbatim>\<open>findUnique\<close>), so the table is a
  map from that column to the rest of the row. A row found by its token is the row its
  \<^verbatim>\<open>id\<close> names, so the key also stands for the generated \<^verbatim>\<open>id\<close>. Rows are
  never deleted.
\<close>

record refresh_token =
  userId :: string
  expiresAt :: instant
  revokedAt :: "instant option"

record db =
  users :: "user list"
  refreshTokens :: "string \<rightharpoonup> refresh_token"

text \<open>The object \<^verbatim>\<open>{ id, email, role }\<close> that is signed into a token.\<close>

datatype token_payload = TokenPayload string string UserRole

text \<open>The object \<^verbatim>\<open>{ id, email, name, role }\<close> returned by a login.\<close>

datatype user_summary = UserSummary string string string UserRole

text \<open>\<^verbatim>\<open>{ accessToken, refreshToken, user }\<close> and \<^verbatim>\<open>{ accessToken, refreshToken }\<close>.\<close>

datatype login_success = LoginSuccess string string user_summary

datatype token_pair = TokenPair string string

text \<open>\<^verbatim>\<open>{ success }\<close>, the body of a logout reply.\<close>

datatype logout_body = LogoutBody bool

text \<open>\<^verbatim>\<open>reply.status(s).send({ error: { code, message } })\<close>.\<close>

datatype error_reply = ErrorReply (status: nat) (code: string) (message: string)

text \<open>
  What a collaborator can throw: the unique constraint on \<^verbatim>\<open>token\<close> refusing an
  insert, an update that finds no row, a token that does not verify, and a field read on
  \<^verbatim>\<open>null\<close>.
\<close>

datatype exn = UniqueConstraintFailed | RecordNotFound | JsonWebTokenError | TypeError

text \<open>A handler fails by sending an error reply or by throwing.\<close>

datatype failure = Replied error_reply | Threw exn

subsection \<open>Imported collaborators\<close>

text \<open>
  The functions of \<^verbatim>\<open>@wms/auth\<close> and the digest. A signer and the verifier also read
  the clock (a token carries its validity window), so each takes the instant of the call.
  \<^verbatim>\<open>verifyRefreshToken\<close> throws on a token it rejects: \<open>None\<close>.
\<close>

record auth_deps =
  signAccessToken :: "token_payload \<Rightarrow> instant \<Rightarrow> string"
  signRefreshToken :: "token_payload \<Rightarrow> instant \<Rightarrow> string"
  verifyRefreshToken :: "string \<Rightarrow> instant \<Rightarrow> token_payload option"
  verifyPassword :: "string \<Rightarrow> string \<Rightarrow> bool"
  sha256 :: "string \<Rightarrow> string"

text \<open>
  The clock readings of one refresh request: when the token is verified, at the test
  \<^verbatim>\<open>storedToken.expiresAt < new Date()\<close>, at \<^verbatim>\<open>revokedAt: new Date()\<close>, and when
  the new pair is issued (\<^verbatim>\<open>Date.now()\<close>).
\<close>

record refresh_clock =
  at_verify :: instant
  at_check :: instant
  at_revoke :: instant
  at_issue :: instant

subsection \<open>Database operations\<close>

text \<open>\<^verbatim>\<open>prisma.user.findUnique({ where: { email } })\<close>\<close>

definition user_findUnique :: "db \<Rightarrow> string \<Rightarrow> user option" where
  "user_findUnique d e = find (\<lambda>u. email u = e) (users d)"

text \<open>
  \<^verbatim>\<open>prisma.refreshToken.findUnique({ where: { token }, include: { user: true } })\<close>:
  the row, with the user its \<^verbatim>\<open>userId\<close> names.
\<close>

definition refreshToken_findUnique :: "db \<Rightarrow> string \<Rightarrow> (refresh_token \<times> user option) option" where
  "refreshToken_findUnique d h =
     (case refreshTokens d h of
        None \<Rightarrow> None
      | Some r \<Rightarrow> Some (r, find (\<lambda>u. user_id u = userId r) (users d)))"

text \<open>
  \<^verbatim>\<open>prisma.refreshToken.create({ data: { token, userId, expiresAt } })\<close>: the new row
  has no \<^verbatim>\<open>revokedAt\<close>; the insert is refused when the token is already stored.
\<close>

definition refreshToken_create :: "db \<Rightarrow> string \<Rightarrow> string \<Rightarrow> instant \<Rightarrow> exn + db" where
  "refreshToken_create d h uid exp =
     (case refreshTokens d h of
        Some r \<Rightarrow> Inl UniqueConstraintFailed
      | None \<Rightarrow>
          Inr (d\<lparr>refreshTokens :=
                 (refreshTokens d)(h \<mapsto> \<lparr>userId = uid, expiresAt = exp, revokedAt = None\<rparr>)\<rparr>))"

text \<open>
  \<^verbatim>\<open>prisma.refreshToken.update({ where: { id }, data: { revokedAt } })\<close>: the row is
  named by its key alone; the update throws when there is no such row.
\<close>

definition refreshToken_update :: "db \<Rightarrow> string \<Rightarrow> instant \<Rightarrow> exn + db" where
  "refreshToken_update d k t =
     (case refreshTokens d k of
        None \<Rightarrow> Inl RecordNotFound
      | Some r \<Rightarrow> Inr (d\<lparr>refreshTokens := (refreshTokens d)(k \<mapsto> r\<lparr>revokedAt := Some t\<rparr>)\<rparr>))"

text \<open>
  \<^verbatim>\<open>prisma.refreshToken.updateMany({ where: { token }, data: { revokedAt } })\<close>:
  every matching row is updated, and matching none is no error. The column is unique,
  so at most one row matches.
\<close>

definition refreshToken_updateMany :: "db \<Rightarrow> string \<Rightarrow> instant \<Rightarrow> db" where
  "refreshToken_updateMany d h t =
     (case refreshTokens d h of
        None \<Rightarrow> d
      | Some r \<Rightarrow> d\<lparr>refreshTokens := (refreshTokens d)(h \<mapsto> r\<lparr>revokedAt := Some t\<rparr>)\<rparr>)"

subsection \<open>POST /login\<close>

text \<open>
  The handler after \<^verbatim>\<open>LoginSchema.parse\<close>, with the parsed email and password.
  \<open>now\<close> is the clock reading at which the tokens are signed and \<^verbatim>\<open>Date.now()\<close>
  is read. \<^verbatim>\<open>!user.password\<close> holds for a null and for an empty password. Nothing
  catches what \<^verbatim>\<open>create\<close> throws: it leaves the handler.
\<close>

definition login :: "auth_deps \<Rightarrow> db \<Rightarrow> instant \<Rightarrow> string \<Rightarrow> string \<Rightarrow> (failure + login_success) \<times> db" where
  "login deps d now body_email body_password =
     (case user_findUnique d body_email of
        None \<Rightarrow>
          (Inl (Replied (ErrorReply 401 ''INVALID_CREDENTIALS'' ''Invalid email or password'')), d)
      | Some usr \<Rightarrow>
          (case password usr of
             None \<Rightarrow>
               (Inl (Replied (ErrorReply 401 ''INVALID_CREDENTIALS'' ''Invalid email or password'')), d)
           | Some pw \<Rightarrow>
               if pw = [] then
                 (Inl (Replied (ErrorReply 401 ''INVALID_CREDENTIALS'' ''Invalid email or password'')), d)
               else if \<not> verifyPassword deps body_password pw then
                 (Inl (Replied (ErrorReply 401 ''INVALID_CREDENTIALS'' ''Invalid email or password'')), d)
               else if \<not> active usr then
                 (Inl (Replied (ErrorReply 403 ''ACCOUNT_DISABLED'' ''Account is disabled'')), d)
               else
                 let accessToken =
                       signAccessToken deps (TokenPayload (user_id usr) (email usr) (role usr)) now;
                     refreshToken =
                       signRefreshToken deps (TokenPayload (user_id usr) (email usr) (role usr)) now
                 in (case refreshToken_create d (sha256 deps refreshToken) (user_id usr)
                            (now + 7 * 24 * 60 * 60 * 1000) of
                       Inl e \<Rightarrow> (Inl (Threw e), d)
                     | Inr d' \<Rightarrow>
                         (Inr (LoginSuccess accessToken refreshToken
                                 (UserSummary (user_id usr) (email usr) (name usr) (role usr))),
                          d'))))"

subsection \<open>POST /refresh\<close>

text \<open>
  The \<^verbatim>\<open>try\<close> block up to the test of the stored row: verification, the digest, the
  lookup, and the early 401 reply. It writes nothing. On success it hands on the key of
  the row, the row and its user.
\<close>

definition refresh_lookup ::
    "auth_deps \<Rightarrow> db \<Rightarrow> instant \<Rightarrow> instant \<Rightarrow> string \<Rightarrow> failure + (string \<times> refresh_token \<times> user option)" where
  "refresh_lookup deps d t_verify t_check body_refreshToken =
     (case verifyRefreshToken deps body_refreshToken t_verify of
        None \<Rightarrow> Inl (Threw JsonWebTokenError)
      | Some payload \<Rightarrow>
          let tokenHash = sha256 deps body_refreshToken in
          (case refreshToken_findUnique d tokenHash of
             None \<Rightarrow>
               Inl (Replied (ErrorReply 401 ''INVALID_TOKEN'' ''Invalid or expired refresh token''))
           | Some (storedToken, usr) \<Rightarrow>
               if revokedAt storedToken \<noteq> None \<or> expiresAt storedToken < t_check then
                 Inl (Replied (ErrorReply 401 ''INVALID_TOKEN'' ''Invalid or expired refresh token''))
               else Inr (tokenHash, storedToken, usr)))"

text \<open>
  The rest of the \<^verbatim>\<open>try\<close> block: the stored row is revoked, the new pair is signed
  for \<^verbatim>\<open>storedToken.user\<close>, and the new row is inserted. A write that has been made
  stays made when a later step throws.
\<close>

definition refresh_rotate ::
    "auth_deps \<Rightarrow> db \<Rightarrow> instant \<Rightarrow> instant \<Rightarrow> string \<times> refresh_token \<times> user option \<Rightarrow> (failure + token_pair) \<times> db" where
  "refresh_rotate deps d t_revoke t_issue found =
     (case found of (storedId, storedToken, stored_user) \<Rightarrow>
        (case refreshToken_update d storedId t_revoke of
           Inl e \<Rightarrow> (Inl (Threw e), d)
         | Inr d1 \<Rightarrow>
             (case stored_user of
                None \<Rightarrow> (Inl (Threw TypeError), d1)
              | Some usr \<Rightarrow>
                  let accessToken =
                        signAccessToken deps (TokenPayload (user_id usr) (email usr) (role usr)) t_issue;
                      newRefreshToken =
                        signRefreshToken deps (TokenPayload (user_id usr) (email usr) (role usr)) t_issue
                  in (case refreshToken_create d1 (sha256 deps newRefreshToken) (user_id usr)
                             (t_issue + 7 * 24 * 60 * 60 * 1000) of
                        Inl e \<Rightarrow> (Inl (Threw e), d1)
                      | Inr d2 \<Rightarrow> (Inr (TokenPair accessToken newRefreshToken), d2)))))"

text \<open>The \<^verbatim>\<open>catch\<close> clause: whatever was thrown becomes one 401 reply.\<close>

definition refresh_catch :: "failure + token_pair \<Rightarrow> error_reply + token_pair" where
  "refresh_catch r =
     (case r of
        Inl (Threw e) \<Rightarrow> Inl (ErrorReply 401 ''INVALID_TOKEN'' ''Invalid refresh token'')
      | Inl (Replied e) \<Rightarrow> Inl e
      | Inr p \<Rightarrow> Inr p)"

text \<open>The handler after \<^verbatim>\<open>RefreshTokenSchema.parse\<close>.\<close>

definition refresh :: "auth_deps \<Rightarrow> db \<Rightarrow> refresh_clock \<Rightarrow> string \<Rightarrow> (error_reply + token_pair) \<times> db" where
  "refresh deps d clk body_refreshToken =
     (case refresh_lookup deps d (at_verify clk) (at_check clk) body_refreshToken of
        Inl f \<Rightarrow> (refresh_catch (Inl f), d)
      | Inr found \<Rightarrow>
          (case refresh_rotate deps d (at_revoke clk) (at_issue clk) found of
             (r, d') \<Rightarrow> (refresh_catch r, d')))"

text \<open>
  Two refresh requests for one token, on the schedule where the lookup of each is
  answered before the update of either reaches the database. A handler is suspended at
  each \<^verbatim>\<open>await\<close>, so another request runs between its lookup and its update.
\<close>

definition refresh_lookups_first ::
    "auth_deps \<Rightarrow> db \<Rightarrow> refresh_clock \<Rightarrow> refresh_clock \<Rightarrow> string
       \<Rightarrow> (error_reply + token_pair) \<times> (error_reply + token_pair) \<times> db" where
  "refresh_lookups_first deps d clk1 clk2 body_refreshToken =
     (let found1 = refresh_lookup deps d (at_verify clk1) (at_check clk1) body_refreshToken;
          found2 = refresh_lookup deps d (at_verify clk2) (at_check clk2) body_refreshToken
      in (case (case found1 of
                  Inl f \<Rightarrow> (Inl f, d)
                | Inr found \<Rightarrow> refresh_rotate deps d (at_revoke clk1) (at_issue clk1) found) of
            (r1, d1) \<Rightarrow>
              (case (case found2 of
                       Inl f \<Rightarrow> (Inl f, d1)
                     | Inr found \<Rightarrow> refresh_rotate deps d1 (at_revoke clk2) (at_issue clk2) found) of
                 (r2, d2) \<Rightarrow> (refresh_catch r1, refresh_catch r2, d2))))"

subsection \<open>POST /logout\<close>

text \<open>
  The handler after \<^verbatim>\<open>RefreshTokenSchema.parse\<close>; \<open>now\<close> is its \<^verbatim>\<open>new Date()\<close>.
\<close>

definition logout :: "auth_deps \<Rightarrow> db \<Rightarrow> instant \<Rightarrow> string \<Rightarrow> logout_body \<times> db" where
  "logout deps d now body_refreshToken =
     (let tokenHash = sha256 deps body_refreshToken
      in (LogoutBody True, refreshToken_updateMany d tokenHash now))"

subsection \<open>Test doubles and sample data\<close>

text \<open>
  Stand-ins for the imported collaborators, used where a theorem is run on concrete
  input. A token names its kind, the user and the second it was issued in, as a signed
  web token without a unique id does; the verifier accepts what looks like a refresh
  token; the digest and the password hash are tags.
\<close>

fun decimal :: "nat \<Rightarrow> string" where
  "decimal n =
     (if n < 10 then [''0123456789'' ! n]
      else decimal (n div 10) @ [''0123456789'' ! (n mod 10)])"

declare decimal.simps [simp del]

definition test_deps :: auth_deps where
  "test_deps =
     \<lparr>signAccessToken =
        (\<lambda>p t. case p of TokenPayload i e r \<Rightarrow> ''A.'' @ i @ ''.'' @ decimal (t div 1000)),
      signRefreshToken =
        (\<lambda>p t. case p of TokenPayload i e r \<Rightarrow> ''R.'' @ i @ ''.'' @ decimal (t div 1000)),
      verifyRefreshToken =
        (\<lambda>tok t. if take 2 tok = ''R.'' then Some (TokenPayload (drop 2 tok) [] STAFF) else None),
      verifyPassword = (\<lambda>pw h. h = ''bcrypt:'' @ pw),
      sha256 = (\<lambda>s. ''#'' @ s)\<rparr>"

definition alice :: user where
  "alice = \<lparr>user_id = ''u1'', email = ''a@x.com'', password = Some ''bcrypt:secret123'',
            name = ''Alice'', role = STAFF, active = True\<rparr>"

definition bob :: user where
  "bob = \<lparr>user_id = ''u2'', email = ''b@x.com'', password = Some ''bcrypt:hunter22'',
          name = ''Bob'', role = MANAGER, active = False\<rparr>"

definition carol :: user where
  "carol = \<lparr>user_id = ''u3'', email = ''c@x.com'', password = None,
            name = ''Carol'', role = ADMIN, active = True\<rparr>"

text \<open>The store before anyone has logged in.\<close>

definition db0 :: db where
  "db0 = \<lparr>users = [alice, bob, carol], refreshTokens = Map.empty\<rparr>"

text \<open>The store after Alice has logged in at 1700000000000.\<close>

definition db1 :: db where
  "db1 = \<lparr>users = [alice, bob, carol],
          refreshTokens = [''#R.u1.1700000000'' \<mapsto>
            \<lparr>userId = ''u1'', expiresAt = 1700604800000, revokedAt = None\<rparr>]\<rparr>"

text \<open>The store after she has exchanged that token a minute later.\<close>

definition db2 :: db where
  "db2 = \<lparr>users = [alice, bob, carol],
          refreshTokens = [''#R.u1.1700000000'' \<mapsto>
            \<lparr>userId = ''u1'', expiresAt = 1700604800000, revokedAt = Some 1700000060002\<rparr>,
            ''#R.u1.1700000060'' \<mapsto>
            \<lparr>userId = ''u1'', expiresAt = 1700604860003, revokedAt = None\<rparr>]\<rparr>"

text \<open>A request that starts at \<open>t\<close> and reads the clock a millisecond apart.\<close>

definition clock :: "instant \<Rightarrow> refresh_clock" where
  "clock t = \<lparr>at_verify = t, at_check = t + 1, at_revoke = t + 2, at_issue = t + 3\<rparr>"

text \<open>
  Two requests in flight together: each has its lookup answered before either sends its
  update, and the second signs its tokens in the second after the first.
\<close>

definition request_a :: refresh_clock where
  "request_a = \<lparr>at_verify = 1700000060000, at_check = 1700000060010,
                 at_revoke = 1700000060010, at_issue = 1700000060999\<rparr>"

definition request_b :: refresh_clock where
  "request_b = \<lparr>at_verify = 1700000060001, at_check = 1700000060012,
                 at_revoke = 1700000060012, at_issue = 1700000061001\<rparr>"

section \<open>Properties\<close>

subsection \<open>The sample data, evaluated\<close>

lemma decimal_samples:
  "decimal 1700000000 = ''1700000000''"
  "decimal 1700000001 = ''1700000001''"
  "decimal 1700000060 = ''1700000060''"
  "decimal 1700000061 = ''1700000061''"
  "decimal 1700000120 = ''1700000120''"
  "decimal 1700604800 = ''1700604800''"
  by (simp_all add: decimal.simps)

lemmas test_simps =
  test_deps_def alice_def bob_def carol_def user_findUnique_def clock_def decimal_samples

lemmas handler_defs =
  login_def refresh_def refresh_lookup_def refresh_rotate_def refresh_catch_def
  refreshToken_findUnique_def refreshToken_update_def refreshToken_create_def Let_def

lemma test_login_db0:
  "login test_deps db0 1700000000000 ''a@x.com'' ''secret123'' =
     (Inr (LoginSuccess ''A.u1.1700000000'' ''R.u1.1700000000''
             (UserSummary ''u1'' ''a@x.com'' ''Alice'' STAFF)), db1)"
  by (simp add: handler_defs test_simps db0_def db1_def)

lemma test_login_db1_same_second:
  "login test_deps db1 1700000000700 ''a@x.com'' ''secret123'' =
     (Inl (Threw UniqueConstraintFailed), db1)"
  by (simp add: handler_defs test_simps db1_def)

lemma test_refresh_db1:
  "refresh test_deps db1 (clock 1700000060000) ''R.u1.1700000000'' =
     (Inr (TokenPair ''A.u1.1700000060'' ''R.u1.1700000060''), db2)"
  by (simp add: handler_defs test_simps db1_def db2_def)

lemma test_refresh_db1_same_second:
  "refresh test_deps db1 (clock 1700000000400) ''R.u1.1700000000'' =
     (Inl (ErrorReply 401 ''INVALID_TOKEN'' ''Invalid refresh token''),
      db1\<lparr>refreshTokens := (refreshTokens db1)(''#R.u1.1700000000'' \<mapsto>
            \<lparr>userId = ''u1'', expiresAt = 1700604800000, revokedAt = Some 1700000000402\<rparr>)\<rparr>)"
  by (simp add: handler_defs test_simps db1_def)

lemma test_refresh_db1_request_a:
  "fst (refresh test_deps db1 request_a ''R.u1.1700000000'') =
     Inr (TokenPair ''A.u1.1700000060'' ''R.u1.1700000060'')"
  by (simp add: handler_defs test_simps db1_def request_a_def)

subsection \<open>Refresh: what each step returns\<close>

lemma refresh_lookup_Inr:
  "refresh_lookup deps d tv tc tok = Inr found \<longleftrightarrow>
     (\<exists>st. verifyRefreshToken deps tok tv \<noteq> None
        \<and> refreshTokens d (sha256 deps tok) = Some st
        \<and> revokedAt st = None \<and> \<not> expiresAt st < tc
        \<and> found = (sha256 deps tok, st, find (\<lambda>u. user_id u = userId st) (users d)))"
  by (auto simp: refresh_lookup_def refreshToken_findUnique_def Let_def split: option.splits)

lemma refresh_lookup_Inl:
  "refresh_lookup deps d tv tc tok = Inl f \<Longrightarrow>
     f = Threw JsonWebTokenError
     \<or> f = Replied (ErrorReply 401 ''INVALID_TOKEN'' ''Invalid or expired refresh token'')"
  by (auto simp: refresh_lookup_def refreshToken_findUnique_def Let_def split: option.splits if_splits)

lemma refresh_catch_Inl:
  "refresh_catch r = Inl e \<longleftrightarrow>
     (\<exists>x. r = Inl (Threw x) \<and> e = ErrorReply 401 ''INVALID_TOKEN'' ''Invalid refresh token'')
     \<or> r = Inl (Replied e)"
  by (auto simp: refresh_catch_def split: sum.splits failure.splits)

lemma refresh_catch_Inr: "refresh_catch r = Inr p \<longleftrightarrow> r = Inr p"
  by (auto simp: refresh_catch_def split: sum.splits failure.splits)

lemma refresh_rotate_Inr:
  "refresh_rotate deps d tr ti (k, st, ou) = (Inr p, d') \<longleftrightarrow>
     (\<exists>r u. refreshTokens d k = Some r \<and> ou = Some u
        \<and> p = TokenPair (signAccessToken deps (TokenPayload (user_id u) (email u) (role u)) ti)
                        (signRefreshToken deps (TokenPayload (user_id u) (email u) (role u)) ti)
        \<and> k \<noteq> sha256 deps (signRefreshToken deps (TokenPayload (user_id u) (email u) (role u)) ti)
        \<and> refreshTokens d (sha256 deps (signRefreshToken deps (TokenPayload (user_id u) (email u) (role u)) ti)) = None
        \<and> d' = d\<lparr>refreshTokens := (refreshTokens d)
               (k \<mapsto> r\<lparr>revokedAt := Some tr\<rparr>,
                sha256 deps (signRefreshToken deps (TokenPayload (user_id u) (email u) (role u)) ti) \<mapsto>
                  \<lparr>userId = user_id u, expiresAt = ti + 7 * 24 * 60 * 60 * 1000, revokedAt = None\<rparr>)\<rparr>)"
  by (auto simp: refresh_rotate_def refreshToken_update_def refreshToken_create_def Let_def
      split: option.splits sum.splits if_splits)

lemma refresh_rotate_Inl:
  "refresh_rotate deps d tr ti (k, st, ou) = (Inl f, d') \<Longrightarrow>
     (\<exists>x. f = Threw x) \<and>
     (d' = d \<or> (\<exists>r. refreshTokens d k = Some r \<and>
         d' = d\<lparr>refreshTokens := (refreshTokens d)(k \<mapsto> r\<lparr>revokedAt := Some tr\<rparr>)\<rparr>))"
  by (auto simp: refresh_rotate_def refreshToken_update_def refreshToken_create_def Let_def
      split: option.splits sum.splits if_splits)

lemma refresh_Inr:
  "refresh deps d clk tok = (Inr p, d') \<longleftrightarrow>
     (\<exists>st u. verifyRefreshToken deps tok (at_verify clk) \<noteq> None
        \<and> refreshTokens d (sha256 deps tok) = Some st
        \<and> revokedAt st = None \<and> \<not> expiresAt st < at_check clk
        \<and> find (\<lambda>u. user_id u = userId st) (users d) = Some u
        \<and> p = TokenPair (signAccessToken deps (TokenPayload (user_id u) (email u) (role u)) (at_issue clk))
                        (signRefreshToken deps (TokenPayload (user_id u) (email u) (role u)) (at_issue clk))
        \<and> refreshTokens d (sha256 deps (signRefreshToken deps (TokenPayload (user_id u) (email u) (role u)) (at_issue clk))) = None
        \<and> d' = d\<lparr>refreshTokens := (refreshTokens d)
               (sha256 deps tok \<mapsto> st\<lparr>revokedAt := Some (at_revoke clk)\<rparr>,
                sha256 deps (signRefreshToken deps (TokenPayload (user_id u) (email u) (role u)) (at_issue clk)) \<mapsto>
                  \<lparr>userId = user_id u, expiresAt = at_issue clk + 7 * 24 * 60 * 60 * 1000, revokedAt = None\<rparr>)\<rparr>)"
  (is "?L \<longleftrightarrow> ?R")
proof
  assume ?L
  then obtain found r where
      lk: "refresh_lookup deps d (at_verify clk) (at_check clk) tok = Inr found"
      and rot: "refresh_rotate deps d (at_revoke clk) (at_issue clk) found = (r, d')"
      and r: "refresh_catch r = Inr p"
    by (auto simp: refresh_def refresh_catch_Inr split: sum.splits prod.splits)
  from r have r': "r = Inr p" by (simp add: refresh_catch_Inr)
  from lk obtain st where st: "verifyRefreshToken deps tok (at_verify clk) \<noteq> None"
      "refreshTokens d (sha256 deps tok) = Some st" "revokedAt st = None"
      "\<not> expiresAt st < at_check clk"
      "found = (sha256 deps tok, st, find (\<lambda>u. user_id u = userId st) (users d))"
    unfolding refresh_lookup_Inr by blast
  from rot r' st show ?R
    by (auto simp: refresh_rotate_Inr)
next
  assume ?R
  then obtain st u where st: "verifyRefreshToken deps tok (at_verify clk) \<noteq> None"
      "refreshTokens d (sha256 deps tok) = Some st" "revokedAt st = None"
      "\<not> expiresAt st < at_check clk"
      "find (\<lambda>u. user_id u = userId st) (users d) = Some u"
      and p: "p = TokenPair (signAccessToken deps (TokenPayload (user_id u) (email u) (role u)) (at_issue clk))
                        (signRefreshToken deps (TokenPayload (user_id u) (email u) (role u)) (at_issue clk))"
      and fresh: "refreshTokens d (sha256 deps (signRefreshToken deps (TokenPayload (user_id u) (email u) (role u)) (at_issue clk))) = None"
      and d': "d' = d\<lparr>refreshTokens := (refreshTokens d)
               (sha256 deps tok \<mapsto> st\<lparr>revokedAt := Some (at_revoke clk)\<rparr>,
                sha256 deps (signRefreshToken deps (TokenPayload (user_id u) (email u) (role u)) (at_issue clk)) \<mapsto>
                  \<lparr>userId = user_id u, expiresAt = at_issue clk + 7 * 24 * 60 * 60 * 1000, revokedAt = None\<rparr>)\<rparr>"
    by blast
  have lk: "refresh_lookup deps d (at_verify clk) (at_check clk) tok = Inr (sha256 deps tok, st, Some u)"
    using st by (simp add: refresh_lookup_Inr)
  have ne: "sha256 deps tok \<noteq> sha256 deps (signRefreshToken deps (TokenPayload (user_id u) (email u) (role u)) (at_issue clk))"
    using st(2) fresh by auto
  have rot: "refresh_rotate deps d (at_revoke clk) (at_issue clk) (sha256 deps tok, st, Some u) = (Inr p, d')"
    unfolding refresh_rotate_Inr using st p fresh d' ne by simp
  show ?L
    by (simp add: refresh_def lk rot refresh_catch_Inr)
qed

lemma refresh_Inl_code:
  assumes "refresh deps d clk tok = (Inl e, d')"
  shows "status e = 401 \<and> code e = ''INVALID_TOKEN''"
proof (cases "refresh_lookup deps d (at_verify clk) (at_check clk) tok")
  case (Inl f)
  with refresh_lookup_Inl [OF Inl] assms show ?thesis
    by (auto simp: refresh_def refresh_catch_def)
next
  case (Inr found)
  with assms obtain r where "refresh_catch r = Inl e"
    by (auto simp: refresh_def split: prod.splits)
  moreover obtain k st ou where "found = (k, st, ou)" by (cases found)
  ultimately show ?thesis
    using assms Inr refresh_rotate_Inl [of deps d "at_revoke clk" "at_issue clk" k st ou]
    by (auto simp: refresh_def refresh_catch_Inl split: prod.splits)
qed

lemma refresh_total:
  "(\<exists>p d'. refresh deps d clk tok = (Inr p, d')) \<or> (\<exists>e d'. refresh deps d clk tok = (Inl e, d'))"
  by (cases "refresh deps d clk tok"; cases "fst (refresh deps d clk tok)") auto

lemma refresh_Inl_store:
  assumes "refresh deps d clk tok = (Inl e, d')"
  shows "users d' = users d
     \<and> dom (refreshTokens d') = dom (refreshTokens d)
     \<and> (\<forall>h. h \<noteq> sha256 deps tok \<longrightarrow> refreshTokens d' h = refreshTokens d h)"
proof (cases "refresh_lookup deps d (at_verify clk) (at_check clk) tok")
  case (Inl f)
  with assms show ?thesis by (auto simp: refresh_def)
next
  case (Inr found)
  then obtain st where found: "found = (sha256 deps tok, st, find (\<lambda>u. user_id u = userId st) (users d))"
    unfolding refresh_lookup_Inr by blast
  from assms Inr obtain r where rot: "refresh_rotate deps d (at_revoke clk) (at_issue clk) found = (r, d')"
      and "refresh_catch r = Inl e"
    by (auto simp: refresh_def split: prod.splits)
  then obtain f where "r = Inl f" by (auto simp: refresh_catch_Inl)
  with rot found have "d' = d \<or> (\<exists>r. refreshTokens d (sha256 deps tok) = Some r \<and>
         d' = d\<lparr>refreshTokens := (refreshTokens d)(sha256 deps tok \<mapsto> r\<lparr>revokedAt := Some (at_revoke clk)\<rparr>)\<rparr>)"
    using refresh_rotate_Inl by blast
  then show ?thesis
  proof
    assume "d' = d"
    then show ?thesis by simp
  next
    assume "\<exists>r. refreshTokens d (sha256 deps tok) = Some r \<and>
         d' = d\<lparr>refreshTokens := (refreshTokens d)(sha256 deps tok \<mapsto> r\<lparr>revokedAt := Some (at_revoke clk)\<rparr>)\<rparr>"
    then obtain r where r: "refreshTokens d (sha256 deps tok) = Some r"
      and d': "d' = d\<lparr>refreshTokens := (refreshTokens d)(sha256 deps tok \<mapsto> r\<lparr>revokedAt := Some (at_revoke clk)\<rparr>)\<rparr>"
      by blast
    from r have "insert (sha256 deps tok) (dom (refreshTokens d)) = dom (refreshTokens d)"
      by auto
    with d' show ?thesis by simp
  qed
qed

lemma refresh_early_failure:
  assumes "verifyRefreshToken deps tok (at_verify clk) = None
     \<or> (case refreshTokens d (sha256 deps tok) of
           None \<Rightarrow> True
         | Some st \<Rightarrow> revokedAt st \<noteq> None \<or> expiresAt st < at_check clk)"
  shows "\<exists>e. refresh deps d clk tok = (Inl e, d) \<and> status e = 401 \<and> code e = ''INVALID_TOKEN''"
  using assms
  by (auto simp: refresh_def refresh_lookup_def refreshToken_findUnique_def refresh_catch_def Let_def
      split: option.splits)

lemma refresh_after_revoked:
  assumes "refreshTokens d (sha256 deps tok) = Some st" and "revokedAt st \<noteq> None"
  shows "\<exists>e. refresh deps d clk tok = (Inl e, d) \<and> status e = 401 \<and> code e = ''INVALID_TOKEN''"
  using assms by (intro refresh_early_failure) (auto split: option.splits)

lemma logout_store:
  "snd (logout deps d now tok) = refreshToken_updateMany d (sha256 deps tok) now"
  by (simp add: logout_def Let_def)

lemma updateMany_row:
  "refreshTokens (refreshToken_updateMany d h t) h = Some st \<Longrightarrow> revokedAt st = Some t"
  by (auto simp: refreshToken_updateMany_def split: option.splits)

lemma refresh_after_logout:
  "\<exists>e. refresh deps (snd (logout deps d now tok)) clk tok = (Inl e, snd (logout deps d now tok))
     \<and> status e = 401 \<and> code e = ''INVALID_TOKEN''"
proof (rule refresh_early_failure, rule disjI2)
  show "case refreshTokens (snd (logout deps d now tok)) (sha256 deps tok) of
          None \<Rightarrow> True
        | Some st \<Rightarrow> revokedAt st \<noteq> None \<or> expiresAt st < at_check clk"
    using updateMany_row [of d "sha256 deps tok" now]
    by (auto simp: logout_store split: option.splits)
qed

lemma refresh_InrE:
  assumes "refresh deps d clk tok = (Inr p, d')"
  obtains st u where
    "verifyRefreshToken deps tok (at_verify clk) \<noteq> None"
    "refreshTokens d (sha256 deps tok) = Some st"
    "revokedAt st = None" "\<not> expiresAt st < at_check clk"
    "find (\<lambda>u. user_id u = userId st) (users d) = Some u"
    "p = TokenPair (signAccessToken deps (TokenPayload (user_id u) (email u) (role u)) (at_issue clk))
                        (signRefreshToken deps (TokenPayload (user_id u) (email u) (role u)) (at_issue clk))"
    "refreshTokens d (sha256 deps (signRefreshToken deps (TokenPayload (user_id u) (email u) (role u)) (at_issue clk))) = None"
    "sha256 deps tok \<noteq> sha256 deps (signRefreshToken deps (TokenPayload (user_id u) (email u) (role u)) (at_issue clk))"
    "d' = d\<lparr>refreshTokens := (refreshTokens d)
               (sha256 deps tok \<mapsto> st\<lparr>revokedAt := Some (at_revoke clk)\<rparr>,
                sha256 deps (signRefreshToken deps (TokenPayload (user_id u) (email u) (role u)) (at_issue clk)) \<mapsto>
                  \<lparr>userId = user_id u, expiresAt = at_issue clk + 7 * 24 * 60 * 60 * 1000, revokedAt = None\<rparr>)\<rparr>"
proof -
  from assms [unfolded refresh_Inr] show thesis
  proof (elim exE conjE)
    fix st u
    assume a: "verifyRefreshToken deps tok (at_verify clk) \<noteq> None"
      "refreshTokens d (sha256 deps tok) = Some st"
      "revokedAt st = None" "\<not> expiresAt st < at_check clk"
      "find (\<lambda>u. user_id u = userId st) (users d) = Some u"
      "p = TokenPair (signAccessToken deps (TokenPayload (user_id u) (email u) (role u)) (at_issue clk))
                        (signRefreshToken deps (TokenPayload (user_id u) (email u) (role u)) (at_issue clk))"
      "refreshTokens d (sha256 deps (signRefreshToken deps (TokenPayload (user_id u) (email u) (role u)) (at_issue clk))) = None"
      "d' = d\<lparr>refreshTokens := (refreshTokens d)
               (sha256 deps tok \<mapsto> st\<lparr>revokedAt := Some (at_revoke clk)\<rparr>,
                sha256 deps (signRefreshToken deps (TokenPayload (user_id u) (email u) (role u)) (at_issue clk)) \<mapsto>
                  \<lparr>userId = user_id u, expiresAt = at_issue clk + 7 * 24 * 60 * 60 * 1000, revokedAt = None\<rparr>)\<rparr>"
    from a(2,7) have "sha256 deps tok \<noteq> sha256 deps (signRefreshToken deps (TokenPayload (user_id u) (email u) (role u)) (at_issue clk))"
      by auto
    note ne = this
    from a(1-7) ne a(8) show thesis by (rule that)
  qed
qed

lemma refresh_Inr_revokes:
  assumes "refresh deps d clk tok = (Inr p, d')"
  shows "\<exists>st. refreshTokens d' (sha256 deps tok) = Some st \<and> revokedAt st \<noteq> None"
  using assms by (rule refresh_InrE) simp

lemma find_Some_holds: "find P xs = Some x \<Longrightarrow> P x"
  by (auto simp: find_Some_iff)

subsection \<open>Login\<close>

text \<open>
  C2, as the code has it. A login with the email of an active user whose stored
  password hash verifies against the submitted password succeeds, provided the digest
  of the refresh token it signs is not stored yet. It returns the access token, the
  refresh token and the summary of id, email, name and role, and the store gains
  exactly one row: under the digest of the returned refresh token, for that user, with
  \<^verbatim>\<open>revokedAt\<close> null and \<^verbatim>\<open>expiresAt\<close> seven days after the clock reading.
\<close>

theorem login_success:
  assumes "user_findUnique d e = Some u"
    and "password u = Some pw" and "pw \<noteq> []"
    and "verifyPassword deps p pw"
    and "active u"
    and "refreshTokens d (sha256 deps (signRefreshToken deps
           (TokenPayload (user_id u) (email u) (role u)) now)) = None"
  shows "\<exists>accessToken refreshToken.
     login deps d now e p =
       (Inr (LoginSuccess accessToken refreshToken
               (UserSummary (user_id u) (email u) (name u) (role u))),
        d\<lparr>refreshTokens := (refreshTokens d)(sha256 deps refreshToken \<mapsto>
             \<lparr>userId = user_id u, expiresAt = now + 7 * 24 * 60 * 60 * 1000, revokedAt = None\<rparr>)\<rparr>)
     \<and> refreshTokens d (sha256 deps refreshToken) = None"
  using assms
  by (simp add: login_def Let_def refreshToken_create_def)

theorem login_success_witness:
  "\<exists>accessToken refreshToken.
     login test_deps db0 1700000000000 ''a@x.com'' ''secret123'' =
       (Inr (LoginSuccess accessToken refreshToken (UserSummary ''u1'' ''a@x.com'' ''Alice'' STAFF)),
        db0\<lparr>refreshTokens := (refreshTokens db0)(sha256 test_deps refreshToken \<mapsto>
             \<lparr>userId = ''u1'', expiresAt = 1700604800000, revokedAt = None\<rparr>)\<rparr>)
     \<and> refreshTokens db0 (sha256 test_deps refreshToken) = None"
proof -
  have u: "user_findUnique db0 ''a@x.com'' = Some alice"
    and pw: "password alice = Some ''bcrypt:secret123''" "''bcrypt:secret123'' \<noteq> []"
    and ok: "verifyPassword test_deps ''secret123'' ''bcrypt:secret123''"
    and act: "active alice"
    and fresh: "refreshTokens db0 (sha256 test_deps (signRefreshToken test_deps
           (TokenPayload (user_id alice) (email alice) (role alice)) 1700000000000)) = None"
    by (simp_all add: test_simps db0_def)
  from login_success [OF u pw ok act fresh] show ?thesis
    by (simp add: alice_def)
qed

text \<open>
  The claim as the specification states it fails when the digest is already stored: a
  second login of the same user in the same second signs the same refresh token, the
  insert is refused, and the handler throws instead of returning the tokens.
\<close>

theorem login_valid_credentials_refused:
  "user_findUnique db1 ''a@x.com'' = Some alice
   \<and> active alice
   \<and> password alice = Some ''bcrypt:secret123''
   \<and> verifyPassword test_deps ''secret123'' ''bcrypt:secret123''
   \<and> login test_deps db1 1700000000700 ''a@x.com'' ''secret123'' =
       (Inl (Threw UniqueConstraintFailed), db1)"
  by (simp add: test_login_db1_same_second) (simp add: test_simps db1_def)

text \<open>
  C4. A login whose email matches no user, whose user has no password set (null or
  empty), or whose password does not verify is answered with 401, code
  \<^verbatim>\<open>INVALID_CREDENTIALS\<close> and the message \<^verbatim>\<open>Invalid email or password\<close>: the
  reply is the same value in the three cases, and the store is as it was.
\<close>

theorem login_invalid_credentials:
  assumes "user_findUnique d e = None
     \<or> (\<exists>u. user_findUnique d e = Some u \<and>
          (password u = None \<or> password u = Some [] \<or>
           (\<exists>pw. password u = Some pw \<and> \<not> verifyPassword deps p pw)))"
  shows "login deps d now e p =
     (Inl (Replied (ErrorReply 401 ''INVALID_CREDENTIALS'' ''Invalid email or password'')), d)"
  using assms by (auto simp: login_def split: option.splits)

theorem login_invalid_credentials_witness:
  "login test_deps db0 1700000000000 ''nobody@x.com'' ''secret123'' =
     (Inl (Replied (ErrorReply 401 ''INVALID_CREDENTIALS'' ''Invalid email or password'')), db0)
   \<and> login test_deps db0 1700000000000 ''c@x.com'' ''secret123'' =
     (Inl (Replied (ErrorReply 401 ''INVALID_CREDENTIALS'' ''Invalid email or password'')), db0)
   \<and> login test_deps db0 1700000000000 ''a@x.com'' ''wrong'' =
     (Inl (Replied (ErrorReply 401 ''INVALID_CREDENTIALS'' ''Invalid email or password'')), db0)"
proof -
  have 1: "user_findUnique db0 ''nobody@x.com'' = None"
    by (simp add: test_simps db0_def)
  have 2: "user_findUnique db0 ''c@x.com'' = Some carol \<and> password carol = None"
    by (simp add: test_simps db0_def)
  have 3: "user_findUnique db0 ''a@x.com'' = Some alice
     \<and> password alice = Some ''bcrypt:secret123''
     \<and> \<not> verifyPassword test_deps ''wrong'' ''bcrypt:secret123''"
    by (simp add: test_simps db0_def)
  show ?thesis
    using login_invalid_credentials [of db0 "''nobody@x.com''" test_deps "''secret123''" 1700000000000]
      login_invalid_credentials [of db0 "''c@x.com''" test_deps "''secret123''" 1700000000000]
      login_invalid_credentials [of db0 "''a@x.com''" test_deps "''wrong''" 1700000000000]
      1 2 3 by blast
qed

text \<open>
  C5. For a user whose active flag is false, a login with credentials that verify is
  answered with 403 \<^verbatim>\<open>ACCOUNT_DISABLED\<close>, and a login with any other password with
  401 \<^verbatim>\<open>INVALID_CREDENTIALS\<close>: the active flag is read only after the password has
  verified.
\<close>

theorem login_inactive_user:
  assumes "user_findUnique d e = Some u" and "\<not> active u"
  shows "login deps d now e p =
     (Inl (Replied
        (if \<exists>pw. password u = Some pw \<and> pw \<noteq> [] \<and> verifyPassword deps p pw
         then ErrorReply 403 ''ACCOUNT_DISABLED'' ''Account is disabled''
         else ErrorReply 401 ''INVALID_CREDENTIALS'' ''Invalid email or password'')), d)"
  using assms by (auto simp: login_def split: option.splits)

theorem login_inactive_user_witness:
  "login test_deps db0 1700000000000 ''b@x.com'' ''hunter22'' =
     (Inl (Replied (ErrorReply 403 ''ACCOUNT_DISABLED'' ''Account is disabled'')), db0)
   \<and> login test_deps db0 1700000000000 ''b@x.com'' ''wrong'' =
     (Inl (Replied (ErrorReply 401 ''INVALID_CREDENTIALS'' ''Invalid email or password'')), db0)"
proof -
  have u: "user_findUnique db0 ''b@x.com'' = Some bob" and a: "\<not> active bob"
    by (simp_all add: test_simps db0_def)
  have ok: "\<exists>pw. password bob = Some pw \<and> pw \<noteq> [] \<and> verifyPassword test_deps ''hunter22'' pw"
    by (simp add: test_simps)
  have bad: "\<not> (\<exists>pw. password bob = Some pw \<and> pw \<noteq> [] \<and> verifyPassword test_deps ''wrong'' pw)"
    by (simp add: test_simps)
  show ?thesis
    using login_inactive_user [OF u a, of test_deps 1700000000000 "''hunter22''"]
      login_inactive_user [OF u a, of test_deps 1700000000000 "''wrong''"] ok bad
    by simp
qed

text \<open>
  C10. A login that does not succeed leaves the store as it was: no row is inserted and
  none is changed. This holds for the 401 and the 403 replies, and also when the insert
  itself is refused.
\<close>

theorem login_failure_keeps_store:
  assumes "login deps d now e p = (Inl f, d')"
  shows "d' = d"
  using assms
  by (auto simp: login_def Let_def split: option.splits if_splits sum.splits)

theorem login_failure_keeps_store_witness:
  "login test_deps db0 1700000000000 ''b@x.com'' ''hunter22'' =
     (Inl (Replied (ErrorReply 403 ''ACCOUNT_DISABLED'' ''Account is disabled'')), db0)
   \<and> snd (login test_deps db0 1700000000000 ''b@x.com'' ''hunter22'') = db0"
proof -
  have r: "login test_deps db0 1700000000000 ''b@x.com'' ''hunter22'' =
     (Inl (Replied (ErrorReply 403 ''ACCOUNT_DISABLED'' ''Account is disabled'')),
      snd (login test_deps db0 1700000000000 ''b@x.com'' ''hunter22''))"
    by (simp add: handler_defs test_simps db0_def)
  from login_failure_keeps_store [OF r] r show ?thesis by simp
qed

subsection \<open>Refresh\<close>

text \<open>
  C1, as the code has it. When a refresh presenting \<open>T0\<close> succeeds and returns
  \<open>T1\<close>: the row of \<open>T0\<close> was stored and unrevoked; the new store is the old one with
  that row revoked and exactly one row added, under the digest of \<open>T1\<close>, which was not
  stored before; every later refresh presenting \<open>T0\<close> is answered with 401
  \<^verbatim>\<open>INVALID_TOKEN\<close> and changes nothing; and a later refresh presenting \<open>T1\<close>
  succeeds whenever \<open>T1\<close> verifies, the clock reading is not after the
  \<^verbatim>\<open>expiresAt\<close> of its row (seven days after it was issued), and the digest of the
  refresh token signed in exchange is not stored yet.
\<close>

theorem refresh_rotation:
  assumes "refresh deps d clk T0 = (Inr (TokenPair a T1), d')"
  shows "\<exists>st u.
      refreshTokens d (sha256 deps T0) = Some st \<and> revokedAt st = None
    \<and> find (\<lambda>v. user_id v = userId st) (users d) = Some u
    \<and> refreshTokens d (sha256 deps T1) = None
    \<and> d' = d\<lparr>refreshTokens := (refreshTokens d)
             (sha256 deps T0 \<mapsto> st\<lparr>revokedAt := Some (at_revoke clk)\<rparr>,
              sha256 deps T1 \<mapsto>
                \<lparr>userId = user_id u, expiresAt = at_issue clk + 7 * 24 * 60 * 60 * 1000,
                 revokedAt = None\<rparr>)\<rparr>
    \<and> (\<forall>clk2. \<exists>e. refresh deps d' clk2 T0 = (Inl e, d')
          \<and> status e = 401 \<and> code e = ''INVALID_TOKEN'')
    \<and> (\<forall>clk2. verifyRefreshToken deps T1 (at_verify clk2) \<noteq> None
          \<and> at_check clk2 \<le> at_issue clk + 7 * 24 * 60 * 60 * 1000
          \<and> refreshTokens d' (sha256 deps (signRefreshToken deps
                (TokenPayload (user_id u) (email u) (role u)) (at_issue clk2))) = None
         \<longrightarrow> (\<exists>p d''. refresh deps d' clk2 T1 = (Inr p, d'')))"
  using assms
proof (rule refresh_InrE)
  fix st u
  assume row: "refreshTokens d (sha256 deps T0) = Some st" and live: "revokedAt st = None"
    and usr: "find (\<lambda>v. user_id v = userId st) (users d) = Some u"
    and pair: "TokenPair a T1 =
      TokenPair (signAccessToken deps (TokenPayload (user_id u) (email u) (role u)) (at_issue clk))
                (signRefreshToken deps (TokenPayload (user_id u) (email u) (role u)) (at_issue clk))"
    and fresh: "refreshTokens d (sha256 deps (signRefreshToken deps
            (TokenPayload (user_id u) (email u) (role u)) (at_issue clk))) = None"
    and d': "d' = d\<lparr>refreshTokens := (refreshTokens d)
               (sha256 deps T0 \<mapsto> st\<lparr>revokedAt := Some (at_revoke clk)\<rparr>,
                sha256 deps (signRefreshToken deps (TokenPayload (user_id u) (email u) (role u)) (at_issue clk)) \<mapsto>
                  \<lparr>userId = user_id u, expiresAt = at_issue clk + 7 * 24 * 60 * 60 * 1000, revokedAt = None\<rparr>)\<rparr>"
  from pair have T1: "T1 = signRefreshToken deps (TokenPayload (user_id u) (email u) (role u)) (at_issue clk)"
    by simp
  have old: "\<exists>e. refresh deps d' clk2 T0 = (Inl e, d') \<and> status e = 401 \<and> code e = ''INVALID_TOKEN''"
    for clk2
  proof -
    from refresh_Inr_revokes [OF assms] obtain st' where
        "refreshTokens d' (sha256 deps T0) = Some st'" "revokedAt st' \<noteq> None"
      by blast
    then show ?thesis by (rule refresh_after_revoked)
  qed
  have new: "\<exists>p d''. refresh deps d' clk2 T1 = (Inr p, d'')"
    if v: "verifyRefreshToken deps T1 (at_verify clk2) \<noteq> None"
      and t: "at_check clk2 \<le> at_issue clk + 7 * 24 * 60 * 60 * 1000"
      and f: "refreshTokens d' (sha256 deps (signRefreshToken deps
                (TokenPayload (user_id u) (email u) (role u)) (at_issue clk2))) = None"
    for clk2
  proof -
    have r1: "refreshTokens d' (sha256 deps T1) =
        Some \<lparr>userId = user_id u, expiresAt = at_issue clk + 7 * 24 * 60 * 60 * 1000, revokedAt = None\<rparr>"
      by (simp add: d' T1)
    from find_Some_holds [OF usr] have "user_id u = userId st" .
    with usr have u1: "find (\<lambda>v. user_id v = user_id u) (users d') = Some u"
      by (simp add: d')
    have "\<exists>st2 u2. verifyRefreshToken deps T1 (at_verify clk2) \<noteq> None
        \<and> refreshTokens d' (sha256 deps T1) = Some st2
        \<and> revokedAt st2 = None \<and> \<not> expiresAt st2 < at_check clk2
        \<and> find (\<lambda>v. user_id v = userId st2) (users d') = Some u2
        \<and> refreshTokens d' (sha256 deps (signRefreshToken deps
              (TokenPayload (user_id u2) (email u2) (role u2)) (at_issue clk2))) = None"
      using v t f r1 u1 by (auto simp: not_less)
    then show ?thesis
      unfolding refresh_Inr by blast
  qed
  have "refreshTokens d (sha256 deps T0) = Some st \<and> revokedAt st = None
    \<and> find (\<lambda>v. user_id v = userId st) (users d) = Some u
    \<and> refreshTokens d (sha256 deps T1) = None
    \<and> d' = d\<lparr>refreshTokens := (refreshTokens d)
             (sha256 deps T0 \<mapsto> st\<lparr>revokedAt := Some (at_revoke clk)\<rparr>,
              sha256 deps T1 \<mapsto>
                \<lparr>userId = user_id u, expiresAt = at_issue clk + 7 * 24 * 60 * 60 * 1000,
                 revokedAt = None\<rparr>)\<rparr>
    \<and> (\<forall>clk2. \<exists>e. refresh deps d' clk2 T0 = (Inl e, d')
          \<and> status e = 401 \<and> code e = ''INVALID_TOKEN'')
    \<and> (\<forall>clk2. verifyRefreshToken deps T1 (at_verify clk2) \<noteq> None
          \<and> at_check clk2 \<le> at_issue clk + 7 * 24 * 60 * 60 * 1000
          \<and> refreshTokens d' (sha256 deps (signRefreshToken deps
                (TokenPayload (user_id u) (email u) (role u)) (at_issue clk2))) = None
         \<longrightarrow> (\<exists>p d''. refresh deps d' clk2 T1 = (Inr p, d'')))"
    using row live usr fresh d' old new unfolding T1 by (intro conjI allI impI) auto
  then show ?thesis by (intro exI)
qed

theorem refresh_rotation_witness:
  "refresh test_deps db1 (clock 1700000060000) ''R.u1.1700000000'' =
     (Inr (TokenPair ''A.u1.1700000060'' ''R.u1.1700000060''), db2)
   \<and> (\<exists>e. refresh test_deps db2 (clock 1700000120000) ''R.u1.1700000000'' = (Inl e, db2)
        \<and> status e = 401 \<and> code e = ''INVALID_TOKEN'')
   \<and> (\<exists>p d''. refresh test_deps db2 (clock 1700000120000) ''R.u1.1700000060'' = (Inr p, d''))"
proof -
  note first = test_refresh_db1
  from refresh_rotation [OF first] obtain st u where
      row: "refreshTokens db1 (sha256 test_deps ''R.u1.1700000000'') = Some st"
      and usr: "find (\<lambda>v. user_id v = userId st) (users db1) = Some u"
      and old: "\<forall>clk2. \<exists>e. refresh test_deps db2 clk2 ''R.u1.1700000000'' = (Inl e, db2)
          \<and> status e = 401 \<and> code e = ''INVALID_TOKEN''"
      and new: "\<forall>clk2. verifyRefreshToken test_deps ''R.u1.1700000060'' (at_verify clk2) \<noteq> None
          \<and> at_check clk2 \<le> at_issue (clock 1700000060000) + 7 * 24 * 60 * 60 * 1000
          \<and> refreshTokens db2 (sha256 test_deps (signRefreshToken test_deps
                (TokenPayload (user_id u) (email u) (role u)) (at_issue clk2))) = None
         \<longrightarrow> (\<exists>p d''. refresh test_deps db2 clk2 ''R.u1.1700000060'' = (Inr p, d''))"
    by blast
  from row have "st = \<lparr>userId = ''u1'', expiresAt = 1700604800000, revokedAt = None\<rparr>"
    by (simp add: test_simps db1_def)
  with usr have u: "u = alice"
    by (simp add: test_simps db1_def)
  have "verifyRefreshToken test_deps ''R.u1.1700000060'' (at_verify (clock 1700000120000)) \<noteq> None
          \<and> at_check (clock 1700000120000) \<le> at_issue (clock 1700000060000) + 7 * 24 * 60 * 60 * 1000
          \<and> refreshTokens db2 (sha256 test_deps (signRefreshToken test_deps
                (TokenPayload (user_id u) (email u) (role u)) (at_issue (clock 1700000120000)))) = None"
    unfolding u by (simp add: test_simps db2_def)
  with new have "\<exists>p d''. refresh test_deps db2 (clock 1700000120000) ''R.u1.1700000060'' = (Inr p, d'')"
    by blast
  with first old show ?thesis by blast
qed

text \<open>
  The claim as the specification states it fails for \<open>T1\<close>: presented in the second
  in which it was issued, it is exchanged for a token with the same digest, the insert
  is refused and the reply is 401; presented after its \<^verbatim>\<open>expiresAt\<close>, it is rejected
  as expired.
\<close>

theorem refresh_new_token_rejected:
  "refresh test_deps db1 (clock 1700000060000) ''R.u1.1700000000'' =
     (Inr (TokenPair ''A.u1.1700000060'' ''R.u1.1700000060''), db2)
   \<and> fst (refresh test_deps db2 (clock 1700000060500) ''R.u1.1700000060'') =
       Inl (ErrorReply 401 ''INVALID_TOKEN'' ''Invalid refresh token'')
   \<and> fst (refresh test_deps db2 (clock 1700604860003) ''R.u1.1700000060'') =
       Inl (ErrorReply 401 ''INVALID_TOKEN'' ''Invalid or expired refresh token'')"
  by (simp add: test_refresh_db1) (simp add: handler_defs test_simps db2_def)

text \<open>
  C3, as the code has it. For a token that verifies, a refresh succeeds exactly when a
  row with the token's digest is stored, its \<^verbatim>\<open>revokedAt\<close> is null, its
  \<^verbatim>\<open>expiresAt\<close> is not before the clock reading (the handler rejects on
  \<^verbatim>\<open>expiresAt < new Date()\<close>, so the instant of expiry itself still passes), the user
  the row names exists, and the digest of the newly signed refresh token is not stored
  yet. Otherwise it is answered with 401 \<^verbatim>\<open>INVALID_TOKEN\<close>; in particular a row
  whose \<^verbatim>\<open>expiresAt\<close> is before the clock reading is rejected, revoked or not, and
  the store stays as it was.
\<close>

theorem refresh_succeeds_iff:
  assumes "verifyRefreshToken deps tok (at_verify clk) = Some payload"
  shows "((\<exists>p d'. refresh deps d clk tok = (Inr p, d')) \<longleftrightarrow>
            (\<exists>st u. refreshTokens d (sha256 deps tok) = Some st
               \<and> revokedAt st = None
               \<and> at_check clk \<le> expiresAt st
               \<and> find (\<lambda>v. user_id v = userId st) (users d) = Some u
               \<and> refreshTokens d (sha256 deps (signRefreshToken deps
                     (TokenPayload (user_id u) (email u) (role u)) (at_issue clk))) = None))
     \<and> ((\<nexists>p d'. refresh deps d clk tok = (Inr p, d'))
          \<longrightarrow> (\<exists>e d'. refresh deps d clk tok = (Inl e, d') \<and> status e = 401 \<and> code e = ''INVALID_TOKEN''))
     \<and> (\<forall>st. refreshTokens d (sha256 deps tok) = Some st \<and> expiresAt st < at_check clk
          \<longrightarrow> (\<exists>e. refresh deps d clk tok = (Inl e, d) \<and> status e = 401 \<and> code e = ''INVALID_TOKEN''))"
proof (intro conjI allI impI)
  show "(\<exists>p d'. refresh deps d clk tok = (Inr p, d')) \<longleftrightarrow>
            (\<exists>st u. refreshTokens d (sha256 deps tok) = Some st
               \<and> revokedAt st = None
               \<and> at_check clk \<le> expiresAt st
               \<and> find (\<lambda>v. user_id v = userId st) (users d) = Some u
               \<and> refreshTokens d (sha256 deps (signRefreshToken deps
                     (TokenPayload (user_id u) (email u) (role u)) (at_issue clk))) = None)"
    unfolding refresh_Inr using assms by (auto simp: not_less)
next
  assume "\<nexists>p d'. refresh deps d clk tok = (Inr p, d')"
  with refresh_total [of deps d clk tok] obtain e d' where "refresh deps d clk tok = (Inl e, d')"
    by blast
  with refresh_Inl_code [of deps d clk tok e d']
  show "\<exists>e d'. refresh deps d clk tok = (Inl e, d') \<and> status e = 401 \<and> code e = ''INVALID_TOKEN''"
    by blast
next
  fix st
  assume "refreshTokens d (sha256 deps tok) = Some st \<and> expiresAt st < at_check clk"
  then show "\<exists>e. refresh deps d clk tok = (Inl e, d) \<and> status e = 401 \<and> code e = ''INVALID_TOKEN''"
    by (intro refresh_early_failure) simp
qed

theorem refresh_succeeds_iff_witness:
  "(\<exists>p d'. refresh test_deps db1 (clock 1700000060000) ''R.u1.1700000000'' = (Inr p, d'))
   \<and> (\<exists>e. refresh test_deps db1 (clock 1700604800000) ''R.u1.1700000000'' = (Inl e, db1)
        \<and> status e = 401 \<and> code e = ''INVALID_TOKEN'')"
proof -
  have v: "verifyRefreshToken test_deps ''R.u1.1700000000'' (at_verify (clock 1700000060000)) =
      Some (TokenPayload ''u1.1700000000'' [] STAFF)"
    and v': "verifyRefreshToken test_deps ''R.u1.1700000000'' (at_verify (clock 1700604800000)) =
      Some (TokenPayload ''u1.1700000000'' [] STAFF)"
    by (simp_all add: test_simps)
  have row: "refreshTokens db1 (sha256 test_deps ''R.u1.1700000000'') =
      Some \<lparr>userId = ''u1'', expiresAt = 1700604800000, revokedAt = None\<rparr>"
    by (simp add: test_simps db1_def)
  have usable: "\<exists>st u. refreshTokens db1 (sha256 test_deps ''R.u1.1700000000'') = Some st
               \<and> revokedAt st = None
               \<and> at_check (clock 1700000060000) \<le> expiresAt st
               \<and> find (\<lambda>v. user_id v = userId st) (users db1) = Some u
               \<and> refreshTokens db1 (sha256 test_deps (signRefreshToken test_deps
                     (TokenPayload (user_id u) (email u) (role u)) (at_issue (clock 1700000060000)))) = None"
    by (simp add: test_simps db1_def)
  have expired: "expiresAt \<lparr>userId = ''u1'', expiresAt = 1700604800000, revokedAt = None\<rparr>
      < at_check (clock 1700604800000)"
    by (simp add: test_simps)
  show ?thesis
    using refresh_succeeds_iff [OF v, of db1] refresh_succeeds_iff [OF v', of db1] usable row expired
    by blast
qed

text \<open>
  The claim as the specification states it fails at the instant of expiry: the row's
  \<^verbatim>\<open>expiresAt\<close> equals the clock reading, so it is not in the future, and the refresh
  succeeds.
\<close>

theorem refresh_at_instant_of_expiry:
  "verifyRefreshToken test_deps ''R.u1.1700000000'' (at_verify (clock 1700604799999)) \<noteq> None
   \<and> refreshTokens db1 (sha256 test_deps ''R.u1.1700000000'') =
       Some \<lparr>userId = ''u1'', expiresAt = 1700604800000, revokedAt = None\<rparr>
   \<and> at_check (clock 1700604799999) = 1700604800000
   \<and> fst (refresh test_deps db1 (clock 1700604799999) ''R.u1.1700000000'') =
       Inr (TokenPair ''A.u1.1700604800'' ''R.u1.1700604800'')"
  by (simp add: handler_defs test_simps db1_def)

text \<open>
  C6, as the code has it. A refresh that fails before its first write leaves the store
  as it was: that is when the token does not verify, or no row has its digest, or the
  row is revoked, or the row's \<^verbatim>\<open>expiresAt\<close> is before the clock reading. Every
  refresh that is answered with an error leaves the users, the set of stored digests
  and every row but the presented one as they were: no row is inserted.
\<close>

theorem refresh_failure_store:
  "(verifyRefreshToken deps tok (at_verify clk) = None
      \<or> (case refreshTokens d (sha256 deps tok) of
            None \<Rightarrow> True
          | Some st \<Rightarrow> revokedAt st \<noteq> None \<or> expiresAt st < at_check clk)
     \<longrightarrow> (\<exists>e. refresh deps d clk tok = (Inl e, d) \<and> status e = 401 \<and> code e = ''INVALID_TOKEN''))
   \<and> (refresh deps d clk tok = (Inl e', d')
     \<longrightarrow> users d' = users d
         \<and> dom (refreshTokens d') = dom (refreshTokens d)
         \<and> (\<forall>h. h \<noteq> sha256 deps tok \<longrightarrow> refreshTokens d' h = refreshTokens d h))"
  using refresh_early_failure [of deps tok clk d] refresh_Inl_store [of deps d clk tok e' d']
  by blast

theorem refresh_failure_store_witness:
  "(\<exists>e. refresh test_deps db2 (clock 1700000120000) ''R.u1.1700000000'' = (Inl e, db2)
        \<and> status e = 401 \<and> code e = ''INVALID_TOKEN'')
   \<and> dom (refreshTokens (snd (refresh test_deps db1 (clock 1700000000400) ''R.u1.1700000000''))) =
       dom (refreshTokens db1)"
proof -
  have revoked: "case refreshTokens db2 (sha256 test_deps ''R.u1.1700000000'') of
            None \<Rightarrow> True
          | Some st \<Rightarrow> revokedAt st \<noteq> None \<or> expiresAt st < at_check (clock 1700000120000)"
    by (simp add: test_simps db2_def)
  have failed: "refresh test_deps db1 (clock 1700000000400) ''R.u1.1700000000'' =
     (Inl (ErrorReply 401 ''INVALID_TOKEN'' ''Invalid refresh token''),
      snd (refresh test_deps db1 (clock 1700000000400) ''R.u1.1700000000''))"
    by (simp add: test_refresh_db1_same_second)
  show ?thesis
    using refresh_failure_store [of test_deps "''R.u1.1700000000''" "clock 1700000120000" db2]
      refresh_failure_store [of test_deps "''R.u1.1700000000''" "clock 1700000000400" db1
        "ErrorReply 401 ''INVALID_TOKEN'' ''Invalid refresh token''"
        "snd (refresh test_deps db1 (clock 1700000000400) ''R.u1.1700000000'')"]
      revoked failed
    by blast
qed

text \<open>
  The claim as the specification states it fails: a refresh in the second in which the
  presented token was issued is answered with 401 \<^verbatim>\<open>INVALID_TOKEN\<close> (the insert of
  the new row is refused and the \<^verbatim>\<open>catch\<close> clause replies), and by then the presented
  row has been revoked.
\<close>

theorem refresh_error_after_revoke:
  "fst (refresh test_deps db1 (clock 1700000000400) ''R.u1.1700000000'') =
     Inl (ErrorReply 401 ''INVALID_TOKEN'' ''Invalid refresh token'')
   \<and> refreshTokens db1 ''#R.u1.1700000000'' =
       Some \<lparr>userId = ''u1'', expiresAt = 1700604800000, revokedAt = None\<rparr>
   \<and> refreshTokens (snd (refresh test_deps db1 (clock 1700000000400) ''R.u1.1700000000''))
       ''#R.u1.1700000000'' =
       Some \<lparr>userId = ''u1'', expiresAt = 1700604800000, revokedAt = Some 1700000000402\<rparr>
   \<and> snd (refresh test_deps db1 (clock 1700000000400) ''R.u1.1700000000'') \<noteq> db1"
proof -
  have "refreshTokens (snd (refresh test_deps db1 (clock 1700000000400) ''R.u1.1700000000''))
       ''#R.u1.1700000000'' \<noteq> refreshTokens db1 ''#R.u1.1700000000''"
    by (simp add: test_refresh_db1_same_second) (simp add: db1_def)
  then have "snd (refresh test_deps db1 (clock 1700000000400) ''R.u1.1700000000'') \<noteq> db1"
    by auto
  then show ?thesis
    by (simp add: test_refresh_db1_same_second) (simp add: db1_def)
qed

subsection \<open>Two requests with one token\<close>

text \<open>
  C7, as the code has it. When one refresh has completed before another that presents
  the same token starts, the first succeeds and the second is answered with 401
  \<^verbatim>\<open>INVALID_TOKEN\<close>. The update that revokes the row names it by its id alone: it
  is not conditioned on the row being unrevoked, and it succeeds on the row the first
  request has revoked. So when the lookups of both requests are answered before either
  update, both pass the test of the row, and both succeed once the digest of the second
  request's new token is not stored.
\<close>

theorem refresh_same_token_twice:
  assumes first: "refresh deps d clk1 tok = (Inr p1, d1)"
    and v2: "verifyRefreshToken deps tok (at_verify clk2) \<noteq> None"
    and row: "refreshTokens d (sha256 deps tok) = Some st"
    and t2: "at_check clk2 \<le> expiresAt st"
    and usr: "find (\<lambda>v. user_id v = userId st) (users d) = Some u"
    and fresh2: "refreshTokens d1 (sha256 deps (signRefreshToken deps
           (TokenPayload (user_id u) (email u) (role u)) (at_issue clk2))) = None"
  shows "(\<exists>e. refresh deps d1 clk2 tok = (Inl e, d1) \<and> status e = 401 \<and> code e = ''INVALID_TOKEN'')
     \<and> (\<exists>r. refreshTokens d1 (sha256 deps tok) = Some r
          \<and> revokedAt r = Some (at_revoke clk1)
          \<and> refreshToken_update d1 (sha256 deps tok) (at_revoke clk2) =
              Inr (d1\<lparr>refreshTokens := (refreshTokens d1)
                     (sha256 deps tok \<mapsto> r\<lparr>revokedAt := Some (at_revoke clk2)\<rparr>)\<rparr>))
     \<and> (\<exists>p2 d2. refresh_lookups_first deps d clk1 clk2 tok = (Inr p1, Inr p2, d2))"
  using first
proof (rule refresh_InrE)
  fix st' u'
  assume v1: "verifyRefreshToken deps tok (at_verify clk1) \<noteq> None"
    and row': "refreshTokens d (sha256 deps tok) = Some st'"
    and live: "revokedAt st' = None" and t1: "\<not> expiresAt st' < at_check clk1"
    and usr': "find (\<lambda>u. user_id u = userId st') (users d) = Some u'"
    and p1: "p1 = TokenPair (signAccessToken deps (TokenPayload (user_id u') (email u') (role u')) (at_issue clk1))
                        (signRefreshToken deps (TokenPayload (user_id u') (email u') (role u')) (at_issue clk1))"
    and fresh1: "refreshTokens d (sha256 deps (signRefreshToken deps (TokenPayload (user_id u') (email u') (role u')) (at_issue clk1))) = None"
    and ne1: "sha256 deps tok \<noteq> sha256 deps (signRefreshToken deps (TokenPayload (user_id u') (email u') (role u')) (at_issue clk1))"
    and d1: "d1 = d\<lparr>refreshTokens := (refreshTokens d)
               (sha256 deps tok \<mapsto> st'\<lparr>revokedAt := Some (at_revoke clk1)\<rparr>,
                sha256 deps (signRefreshToken deps (TokenPayload (user_id u') (email u') (role u')) (at_issue clk1)) \<mapsto>
                  \<lparr>userId = user_id u', expiresAt = at_issue clk1 + 7 * 24 * 60 * 60 * 1000, revokedAt = None\<rparr>)\<rparr>"
  from row row' have st: "st' = st" by simp
  from usr usr' st have u: "u' = u" by simp
  have row1: "refreshTokens d1 (sha256 deps tok) = Some (st\<lparr>revokedAt := Some (at_revoke clk1)\<rparr>)"
    using ne1 by (simp add: d1 st)
  have seq: "\<exists>e. refresh deps d1 clk2 tok = (Inl e, d1) \<and> status e = 401 \<and> code e = ''INVALID_TOKEN''"
    using row1 by (rule refresh_after_revoked) simp
  have upd: "refreshToken_update d1 (sha256 deps tok) (at_revoke clk2) =
              Inr (d1\<lparr>refreshTokens := (refreshTokens d1)
                     (sha256 deps tok \<mapsto> (st\<lparr>revokedAt := Some (at_revoke clk1)\<rparr>)\<lparr>revokedAt := Some (at_revoke clk2)\<rparr>)\<rparr>)"
    using row1 by (simp add: refreshToken_update_def)
  have l1: "refresh_lookup deps d (at_verify clk1) (at_check clk1) tok = Inr (sha256 deps tok, st, Some u)"
    using v1 row live t1 usr st by (simp add: refresh_lookup_Inr)
  have l2: "refresh_lookup deps d (at_verify clk2) (at_check clk2) tok = Inr (sha256 deps tok, st, Some u)"
    using v2 row live t2 usr st by (simp add: refresh_lookup_Inr not_less)
  have r1: "refresh_rotate deps d (at_revoke clk1) (at_issue clk1) (sha256 deps tok, st, Some u) = (Inr p1, d1)"
    using first l1 by (simp add: refresh_def refresh_catch_Inr split: prod.splits)
  from row1 fresh2 have ne2: "sha256 deps tok \<noteq> sha256 deps (signRefreshToken deps
           (TokenPayload (user_id u) (email u) (role u)) (at_issue clk2))"
    by auto
  have "\<exists>p2 d2. refresh_rotate deps d1 (at_revoke clk2) (at_issue clk2) (sha256 deps tok, st, Some u) = (Inr p2, d2)"
    unfolding refresh_rotate_Inr using row1 fresh2 ne2 by simp
  then obtain p2 d2 where
      r2: "refresh_rotate deps d1 (at_revoke clk2) (at_issue clk2) (sha256 deps tok, st, Some u) = (Inr p2, d2)"
    by blast
  have both: "refresh_lookups_first deps d clk1 clk2 tok = (Inr p1, Inr p2, d2)"
    by (simp add: refresh_lookups_first_def Let_def l1 l2 r1 r2 refresh_catch_Inr)
  from seq row1 upd both show ?thesis
    by (intro conjI exI [of _ "st\<lparr>revokedAt := Some (at_revoke clk1)\<rparr>"] exI [of _ p2] exI [of _ d2]) simp_all
qed

theorem refresh_same_token_twice_witness:
  "(\<exists>e. refresh test_deps (snd (refresh test_deps db1 request_a ''R.u1.1700000000'')) request_b
          ''R.u1.1700000000'' =
          (Inl e, snd (refresh test_deps db1 request_a ''R.u1.1700000000''))
        \<and> status e = 401 \<and> code e = ''INVALID_TOKEN'')
   \<and> (\<exists>p2 d2. refresh_lookups_first test_deps db1 request_a request_b ''R.u1.1700000000'' =
          (Inr (TokenPair ''A.u1.1700000060'' ''R.u1.1700000060''), Inr p2, d2))"
proof -
  have first: "refresh test_deps db1 request_a ''R.u1.1700000000'' =
      (Inr (TokenPair ''A.u1.1700000060'' ''R.u1.1700000060''),
       snd (refresh test_deps db1 request_a ''R.u1.1700000000''))"
    using test_refresh_db1_request_a by (simp add: prod_eq_iff)
  have v2: "verifyRefreshToken test_deps ''R.u1.1700000000'' (at_verify request_b) \<noteq> None"
    and row: "refreshTokens db1 (sha256 test_deps ''R.u1.1700000000'') =
      Some \<lparr>userId = ''u1'', expiresAt = 1700604800000, revokedAt = None\<rparr>"
    and t2: "at_check request_b \<le>
      expiresAt \<lparr>userId = ''u1'', expiresAt = 1700604800000, revokedAt = None\<rparr>"
    and usr: "find (\<lambda>v. user_id v = userId \<lparr>userId = ''u1'', expiresAt = 1700604800000, revokedAt = None\<rparr>)
      (users db1) = Some alice"
    by (simp_all add: test_simps db1_def request_b_def)
  have fresh2: "refreshTokens (snd (refresh test_deps db1 request_a ''R.u1.1700000000''))
      (sha256 test_deps (signRefreshToken test_deps
           (TokenPayload (user_id alice) (email alice) (role alice)) (at_issue request_b))) = None"
    by (simp add: handler_defs test_simps db1_def request_a_def request_b_def)
  from refresh_same_token_twice [OF first v2 row t2 usr fresh2] show ?thesis
    by blast
qed

text \<open>
  The claim as the specification states it fails on that schedule: both requests
  return a new pair of tokens.
\<close>

theorem refresh_lookups_first_both_succeed:
  "fst (refresh_lookups_first test_deps db1 request_a request_b ''R.u1.1700000000'') =
     Inr (TokenPair ''A.u1.1700000060'' ''R.u1.1700000060'')
   \<and> fst (snd (refresh_lookups_first test_deps db1 request_a request_b ''R.u1.1700000000'')) =
     Inr (TokenPair ''A.u1.1700000061'' ''R.u1.1700000061'')"
  by (simp add: refresh_lookups_first_def handler_defs test_simps db1_def request_a_def request_b_def)

subsection \<open>An insert that the unique constraint refuses\<close>

text \<open>
  C8, as the code has it. Neither handler retries an insert whose digest is already
  stored. In a login that has passed every check the refusal is thrown out of the
  handler, which returns no tokens and writes nothing. In a refresh that has passed
  every check the \<^verbatim>\<open>catch\<close> clause turns it into the reply 401
  \<^verbatim>\<open>INVALID_TOKEN\<close>, \<^verbatim>\<open>Invalid refresh token\<close>, after the presented row has been
  revoked, and no row is inserted.
\<close>

theorem conflict_not_retried:
  "(user_findUnique d e = Some u \<and> password u = Some pw \<and> pw \<noteq> []
      \<and> verifyPassword deps p pw \<and> active u
      \<and> refreshTokens d (sha256 deps (signRefreshToken deps
           (TokenPayload (user_id u) (email u) (role u)) now)) = Some row
     \<longrightarrow> login deps d now e p = (Inl (Threw UniqueConstraintFailed), d))
   \<and> (verifyRefreshToken deps tok (at_verify clk) \<noteq> None
      \<and> refreshTokens d (sha256 deps tok) = Some st
      \<and> revokedAt st = None \<and> at_check clk \<le> expiresAt st
      \<and> find (\<lambda>x. user_id x = userId st) (users d) = Some v
      \<and> refreshTokens d (sha256 deps (signRefreshToken deps
           (TokenPayload (user_id v) (email v) (role v)) (at_issue clk))) = Some row'
     \<longrightarrow> refresh deps d clk tok =
           (Inl (ErrorReply 401 ''INVALID_TOKEN'' ''Invalid refresh token''),
            d\<lparr>refreshTokens := (refreshTokens d)
                 (sha256 deps tok \<mapsto> st\<lparr>revokedAt := Some (at_revoke clk)\<rparr>)\<rparr>))"
proof (intro conjI impI)
  assume "user_findUnique d e = Some u \<and> password u = Some pw \<and> pw \<noteq> []
      \<and> verifyPassword deps p pw \<and> active u
      \<and> refreshTokens d (sha256 deps (signRefreshToken deps
           (TokenPayload (user_id u) (email u) (role u)) now)) = Some row"
  then show "login deps d now e p = (Inl (Threw UniqueConstraintFailed), d)"
    by (simp add: login_def Let_def refreshToken_create_def)
next
  assume a: "verifyRefreshToken deps tok (at_verify clk) \<noteq> None
      \<and> refreshTokens d (sha256 deps tok) = Some st
      \<and> revokedAt st = None \<and> at_check clk \<le> expiresAt st
      \<and> find (\<lambda>x. user_id x = userId st) (users d) = Some v
      \<and> refreshTokens d (sha256 deps (signRefreshToken deps
           (TokenPayload (user_id v) (email v) (role v)) (at_issue clk))) = Some row'"
  then have "refresh_lookup deps d (at_verify clk) (at_check clk) tok =
      Inr (sha256 deps tok, st, Some v)"
    by (simp add: refresh_lookup_Inr not_less)
  moreover from a have "refresh_rotate deps d (at_revoke clk) (at_issue clk) (sha256 deps tok, st, Some v) =
      (Inl (Threw UniqueConstraintFailed),
       d\<lparr>refreshTokens := (refreshTokens d)
            (sha256 deps tok \<mapsto> st\<lparr>revokedAt := Some (at_revoke clk)\<rparr>)\<rparr>)"
    by (simp add: refresh_rotate_def refreshToken_update_def refreshToken_create_def Let_def)
  ultimately show "refresh deps d clk tok =
           (Inl (ErrorReply 401 ''INVALID_TOKEN'' ''Invalid refresh token''),
            d\<lparr>refreshTokens := (refreshTokens d)
                 (sha256 deps tok \<mapsto> st\<lparr>revokedAt := Some (at_revoke clk)\<rparr>)\<rparr>)"
    by (simp add: refresh_def refresh_catch_def)
qed

theorem conflict_not_retried_witness:
  "login test_deps db1 1700000000700 ''a@x.com'' ''secret123'' =
     (Inl (Threw UniqueConstraintFailed), db1)
   \<and> refresh test_deps db1 (clock 1700000000400) ''R.u1.1700000000'' =
     (Inl (ErrorReply 401 ''INVALID_TOKEN'' ''Invalid refresh token''),
      db1\<lparr>refreshTokens := (refreshTokens db1)(''#R.u1.1700000000'' \<mapsto>
            \<lparr>userId = ''u1'', expiresAt = 1700604800000, revokedAt = Some 1700000000402\<rparr>)\<rparr>)"
proof -
  have l: "user_findUnique db1 ''a@x.com'' = Some alice \<and> password alice = Some ''bcrypt:secret123''
      \<and> ''bcrypt:secret123'' \<noteq> []
      \<and> verifyPassword test_deps ''secret123'' ''bcrypt:secret123'' \<and> active alice
      \<and> refreshTokens db1 (sha256 test_deps (signRefreshToken test_deps
           (TokenPayload (user_id alice) (email alice) (role alice)) 1700000000700)) =
          Some \<lparr>userId = ''u1'', expiresAt = 1700604800000, revokedAt = None\<rparr>"
    by (simp add: test_simps db1_def)
  have r: "verifyRefreshToken test_deps ''R.u1.1700000000'' (at_verify (clock 1700000000400)) \<noteq> None
      \<and> refreshTokens db1 (sha256 test_deps ''R.u1.1700000000'') =
          Some \<lparr>userId = ''u1'', expiresAt = 1700604800000, revokedAt = None\<rparr>
      \<and> revokedAt \<lparr>userId = ''u1'', expiresAt = 1700604800000, revokedAt = None\<rparr> = None
      \<and> at_check (clock 1700000000400) \<le>
          expiresAt \<lparr>userId = ''u1'', expiresAt = 1700604800000, revokedAt = None\<rparr>
      \<and> find (\<lambda>x. user_id x = userId \<lparr>userId = ''u1'', expiresAt = 1700604800000, revokedAt = None\<rparr>)
           (users db1) = Some alice
      \<and> refreshTokens db1 (sha256 test_deps (signRefreshToken test_deps
           (TokenPayload (user_id alice) (email alice) (role alice))
           (at_issue (clock 1700000000400)))) =
          Some \<lparr>userId = ''u1'', expiresAt = 1700604800000, revokedAt = None\<rparr>"
    by (simp add: test_simps db1_def)
  have k: "sha256 test_deps ''R.u1.1700000000'' = ''#R.u1.1700000000''"
    and t: "at_revoke (clock 1700000000400) = 1700000000402"
    by (simp_all add: test_simps)
  from conflict_not_retried [of db1 "''a@x.com''" alice "''bcrypt:secret123''" test_deps
      "''secret123''" 1700000000700
      "\<lparr>userId = ''u1'', expiresAt = 1700604800000, revokedAt = None\<rparr>"
      "''R.u1.1700000000''" "clock 1700000000400"
      "\<lparr>userId = ''u1'', expiresAt = 1700604800000, revokedAt = None\<rparr>" alice
      "\<lparr>userId = ''u1'', expiresAt = 1700604800000, revokedAt = None\<rparr>"] l r
  show ?thesis
    by (simp add: k t)
qed

text \<open>
  The claim as the specification states it fails: with the digest already stored, the
  caller of login gets the refusal of the unique constraint, thrown out of the handler,
  although a login one second later, which signs another token, succeeds.
\<close>

theorem conflict_reaches_caller:
  "refreshTokens db1 (sha256 test_deps (signRefreshToken test_deps
       (TokenPayload ''u1'' ''a@x.com'' STAFF) 1700000000700)) =
     Some \<lparr>userId = ''u1'', expiresAt = 1700604800000, revokedAt = None\<rparr>
   \<and> login test_deps db1 1700000000700 ''a@x.com'' ''secret123'' =
       (Inl (Threw UniqueConstraintFailed), db1)
   \<and> fst (login test_deps db1 1700000001000 ''a@x.com'' ''secret123'') =
       Inr (LoginSuccess ''A.u1.1700000001'' ''R.u1.1700000001''
              (UserSummary ''u1'' ''a@x.com'' ''Alice'' STAFF))"
  by (simp add: handler_defs test_simps db1_def)

subsection \<open>Logout\<close>

text \<open>
  C9. Logout answers \<^verbatim>\<open>{ success: true }\<close> for every token and every store, whether
  the token's digest is stored or not and whether its row is revoked or not. A second
  logout with the same token answers the same, and after the first as after the second
  a refresh that presents the token is answered with 401 \<^verbatim>\<open>INVALID_TOKEN\<close>, the store
  staying as the logout left it.
\<close>

theorem logout_idempotent:
  "fst (logout deps d now tok) = LogoutBody True
   \<and> fst (logout deps (snd (logout deps d now tok)) now' tok) = LogoutBody True
   \<and> (\<exists>e. refresh deps (snd (logout deps d now tok)) clk tok = (Inl e, snd (logout deps d now tok))
        \<and> status e = 401 \<and> code e = ''INVALID_TOKEN'')
   \<and> (\<exists>e. refresh deps (snd (logout deps (snd (logout deps d now tok)) now' tok)) clk' tok =
          (Inl e, snd (logout deps (snd (logout deps d now tok)) now' tok))
        \<and> status e = 401 \<and> code e = ''INVALID_TOKEN'')"
  using refresh_after_logout [of deps d now tok clk]
    refresh_after_logout [of deps "snd (logout deps d now tok)" now' tok clk']
  by (simp add: logout_def Let_def)

theorem logout_idempotent_witness:
  "fst (logout test_deps db0 1700000030000 ''R.u9.1600000000'') = LogoutBody True
   \<and> fst (logout test_deps db1 1700000030000 ''R.u1.1700000000'') = LogoutBody True
   \<and> fst (logout test_deps (snd (logout test_deps db1 1700000030000 ''R.u1.1700000000''))
        1700000040000 ''R.u1.1700000000'') = LogoutBody True
   \<and> (\<exists>e. refresh test_deps (snd (logout test_deps db1 1700000030000 ''R.u1.1700000000''))
          (clock 1700000060000) ''R.u1.1700000000'' =
          (Inl e, snd (logout test_deps db1 1700000030000 ''R.u1.1700000000''))
        \<and> status e = 401 \<and> code e = ''INVALID_TOKEN'')
   \<and> (\<exists>e. refresh test_deps
          (snd (logout test_deps (snd (logout test_deps db1 1700000030000 ''R.u1.1700000000''))
             1700000040000 ''R.u1.1700000000''))
          (clock 1700000060000) ''R.u1.1700000000'' =
          (Inl e, snd (logout test_deps (snd (logout test_deps db1 1700000030000 ''R.u1.1700000000''))
             1700000040000 ''R.u1.1700000000''))
        \<and> status e = 401 \<and> code e = ''INVALID_TOKEN'')"
  using logout_idempotent [of test_deps db0 1700000030000 "''R.u9.1600000000''"]
    logout_idempotent [of test_deps db1 1700000030000 "''R.u1.1700000000''" 1700000040000
      "clock 1700000060000" "clock 1700000060000"]
  by blast

end
